theory Spec2Isabelle
  imports Main
begin

section \<open>Python values used by email_reader.py\<close>

text \<open>
  A Python \<open>str\<close> is a sequence of Unicode code points, modelled as a list of naturals;
  \<open>str\<close> turns an ASCII literal into that form. A \<open>bytes\<close> object is a list of 8-bit
  characters. Exceptions are values: only the classes that the program distinguishes or
  raises itself have a constructor of their own.
\<close>

type_synonym pystr = "nat list"
type_synonym bytes = "char list"

definition str :: "string \<Rightarrow> pystr" where
  "str s = map of_char s"

datatype exn = TypeError | AttributeError | KeyError | OSError | RuntimeError string | OtherError

text \<open>\<open>a or b\<close> on strings: the empty string is falsy.\<close>

definition py_or :: "pystr \<Rightarrow> pystr \<Rightarrow> pystr" where
  "py_or a b = (if a \<noteq> [] then a else b)"

text \<open>
  \<open>str.isspace\<close> for one code point, the set that \<open>str.strip()\<close> removes: the ASCII
  controls 9-13 and 28-31, space, NEL, NBSP, and the Unicode space separators.
\<close>

definition py_isspace :: "nat \<Rightarrow> bool" where
  "py_isspace c =
     ((9 \<le> c \<and> c \<le> 13) \<or> (28 \<le> c \<and> c \<le> 32) \<or> c = 133 \<or> c = 160 \<or> c = 5760
      \<or> (8192 \<le> c \<and> c \<le> 8202) \<or> c = 8232 \<or> c = 8233 \<or> c = 8239 \<or> c = 8287
      \<or> c = 12288)"

definition strip :: "pystr \<Rightarrow> pystr" where
  "strip s = rev (dropWhile py_isspace (rev (dropWhile py_isspace s)))"

text \<open>
  \<open>dict(pairs)\<close>: a Python dict keeps the position of the first insertion of a key and
  the value of the last one. It is modelled as an association list in insertion order.
\<close>

fun dict_setitem :: "('k \<times> 'v) list \<Rightarrow> 'k \<Rightarrow> 'v \<Rightarrow> ('k \<times> 'v) list" where
  "dict_setitem [] k v = [(k, v)]"
| "dict_setitem ((k', v') # d) k v =
     (if k' = k then (k', v) # d else (k', v') # dict_setitem d k v)"

definition py_dict :: "('k \<times> 'v) list \<Rightarrow> ('k \<times> 'v) list" where
  "py_dict pairs = foldl (\<lambda>d (k, v). dict_setitem d k v) [] pairs"

section \<open>Filename sanitization\<close>

text \<open>
  \<^verbatim>\<open>return "".join(c for c in name if c not in "\\/:*?\"<>|").strip() or "attachment"\<close>
  The nine characters are backslash, slash, colon, asterisk, question mark, double
  quote, less-than, greater-than and vertical bar.
\<close>

definition forbidden_chars :: pystr where
  "forbidden_chars = [0x5C, 0x2F, 0x3A, 0x2A, 0x3F, 0x22, 0x3C, 0x3E, 0x7C]"

definition sanitize_filename :: "pystr \<Rightarrow> pystr" where
  "sanitize_filename name =
     py_or (strip (filter (\<lambda>c. c \<notin> set forbidden_chars) name)) (str ''attachment'')"

section \<open>Parsed MIME messages and parse_eml\<close>

text \<open>
  The object that \<open>BytesParser(policy=policy.default).parse\<close> returns is a tree. Each node
  answers \<open>items()\<close>, \<open>get_content_disposition()\<close>, \<open>get_content_type()\<close> and
  \<open>get_filename()\<close>. A node whose payload is a list of sub-messages is \<open>Multipart\<close>;
  any other node is a \<open>Leaf\<close> with its transfer-decoded payload bytes and the result of
  \<open>get_content()\<close>, which is a string or an exception.
\<close>

record part_fields =
  items :: "(pystr \<times> pystr) list"
  get_content_disposition :: "pystr option"
  get_content_type :: pystr
  get_filename :: "pystr option"

datatype message =
    Leaf part_fields bytes "exn + pystr"
  | Multipart part_fields "message list"

fun node_fields :: "message \<Rightarrow> part_fields" where
  "node_fields (Leaf f b c) = f"
| "node_fields (Multipart f ps) = f"

fun is_multipart :: "message \<Rightarrow> bool" where
  "is_multipart (Leaf f b c) = False"
| "is_multipart (Multipart f ps) = True"

text \<open>\<open>get_payload(decode=True)\<close> is \<open>None\<close> on a multipart node.\<close>

fun get_payload_decode :: "message \<Rightarrow> bytes option" where
  "get_payload_decode (Leaf f b c) = Some b"
| "get_payload_decode (Multipart f ps) = None"

text \<open>\<open>get_content()\<close> finds no content handler for a node with sub-messages.\<close>

fun get_content :: "message \<Rightarrow> exn + pystr" where
  "get_content (Leaf f b c) = c"
| "get_content (Multipart f ps) = Inl KeyError"

text \<open>\<open>walk()\<close> yields the node itself, then the walk of each sub-message in order.\<close>

fun walk :: "message \<Rightarrow> message list" where
  "walk (Leaf f b c) = [Leaf f b c]"
| "walk (Multipart f ps) = Multipart f ps # concat (map walk ps)"

section \<open>The filesystem and the decoder's attachment handles\<close>

text \<open>
  The part of the world that saving touches: the contents of the files, and which paths
  can be opened for writing. \<open>open(p, "wb")\<close> followed by \<open>write(b)\<close> replaces the file's
  contents, or raises \<open>OSError\<close> and changes nothing.
\<close>

record world =
  files :: "pystr \<Rightarrow> bytes option"
  writable :: "pystr \<Rightarrow> bool"

definition open_wb_write :: "pystr \<Rightarrow> bytes \<Rightarrow> world \<Rightarrow> exn option \<times> world" where
  "open_wb_write p b w =
     (if writable w p then (None, w\<lparr>files := (files w)(p := Some b)\<rparr>) else (Some OSError, w))"

text \<open>
  An attachment object of the optional .msg decoder is foreign code. Its \<open>save\<close> method,
  when it has one, is given by what each of the two call forms does to the world and
  which exception it raises, if any. The attributes \<open>data\<close>, \<open>payload\<close> and
  \<open>longFilename\<close> are read with default \<open>None\<close>; \<open>filename\<close> is also read with the
  default \<open>"attachment"\<close>, so for it a missing attribute differs from one holding \<open>None\<close>.
\<close>

record save_method =
  save_customPath :: "pystr \<Rightarrow> world \<Rightarrow> exn option \<times> world"
  save_positional :: "pystr \<Rightarrow> world \<Rightarrow> exn option \<times> world"

datatype 'a attr = Missing | IsNone | Val 'a

record handle =
  obj_save :: "save_method option"
  obj_data :: "bytes option"
  obj_payload :: "bytes option"
  obj_longFilename :: "pystr option"
  obj_filename :: "pystr attr"

text \<open>
  The attachment dicts of both parsers, with \<open>a.get(key)\<close> for the keys that only one of
  them sets: \<open>parse_eml\<close> stores \<open>filename\<close>, \<open>content_type\<close> and \<open>payload\<close>, \<open>parse_msg\<close>
  stores \<open>filename\<close> and \<open>obj\<close>.
\<close>

record attachment =
  filename :: pystr
  content_type :: "pystr option"
  payload :: "bytes option"
  obj :: "handle option"

type_synonym parsed = "(pystr \<times> pystr) list \<times> pystr \<times> pystr \<times> attachment list"

text \<open>
  The body of the loop over \<open>msg.walk()\<close> (lines 48-70), on the loop's three variables.
  Reading a body tries \<open>get_content()\<close> and, on any exception, decodes the payload bytes
  with replacement characters (the function \<open>decode\<close>, library code); on a node without
  payload bytes that second attempt raises \<open>AttributeError\<close>, which leaves \<open>parse_eml\<close>.
\<close>

definition get_body :: "(bytes \<Rightarrow> pystr) \<Rightarrow> message \<Rightarrow> exn + pystr" where
  "get_body decode part =
     (case get_content part of
        Inr s \<Rightarrow> Inr s
      | Inl e \<Rightarrow>
          (case get_payload_decode part of
             Some b \<Rightarrow> Inr (decode b)
           | None \<Rightarrow> Inl AttributeError))"

fun walk_step ::
  "(bytes \<Rightarrow> pystr) \<Rightarrow> message \<Rightarrow> pystr \<times> pystr \<times> attachment list
     \<Rightarrow> exn + (pystr \<times> pystr \<times> attachment list)" where
  "walk_step decode part (body_text, body_html, attachments) =
     (let cdis = get_content_disposition (node_fields part);
          ctype = get_content_type (node_fields part);
          fname = get_filename (node_fields part)
      in if cdis = Some (str ''attachment'') \<or> (fname \<noteq> None \<and> fname \<noteq> Some []) then
           Inr (body_text, body_html,
                attachments @
                  [\<lparr>filename = (case fname of None \<Rightarrow> str ''attachment''
                                 | Some n \<Rightarrow> py_or n (str ''attachment'')),
                    content_type = Some ctype,
                    payload = get_payload_decode part,
                    obj = None\<rparr>])
         else if ctype = str ''text/plain'' \<and> body_text = [] then
           (case get_body decode part of
              Inl e \<Rightarrow> Inl e
            | Inr s \<Rightarrow> Inr (s, body_html, attachments))
         else if ctype = str ''text/html'' \<and> body_html = [] then
           (case get_body decode part of
              Inl e \<Rightarrow> Inl e
            | Inr s \<Rightarrow> Inr (body_text, s, attachments))
         else Inr (body_text, body_html, attachments))"

fun walk_loop ::
  "(bytes \<Rightarrow> pystr) \<Rightarrow> message list \<Rightarrow> pystr \<times> pystr \<times> attachment list
     \<Rightarrow> exn + (pystr \<times> pystr \<times> attachment list)" where
  "walk_loop decode [] s = Inr s"
| "walk_loop decode (part # rest) s =
     (case walk_step decode part s of
        Inl e \<Rightarrow> Inl e
      | Inr s' \<Rightarrow> walk_loop decode rest s')"

text \<open>
  \<open>parse_eml\<close> from line 40 on; its argument is the message parsed from the file
  (lines 37-38 are library code).
\<close>

definition parse_eml :: "(bytes \<Rightarrow> pystr) \<Rightarrow> message \<Rightarrow> exn + parsed" where
  "parse_eml decode msg =
     (let headers = py_dict (items (node_fields msg))
      in if is_multipart msg then
           (case walk_loop decode (walk msg) ([], [], []) of
              Inl e \<Rightarrow> Inl e
            | Inr (body_text, body_html, attachments) \<Rightarrow>
                Inr (headers, body_text, body_html, attachments))
         else
           (let ctype = get_content_type (node_fields msg)
            in if ctype = str ''text/plain'' then
                 (case get_content msg of
                    Inl e \<Rightarrow> Inl e
                  | Inr s \<Rightarrow> Inr (headers, s, [], []))
               else if ctype = str ''text/html'' then
                 (case get_content msg of
                    Inl e \<Rightarrow> Inl e
                  | Inr s \<Rightarrow> Inr (headers, [], s, []))
               else Inr (headers, [], [], [])))"

section \<open>parse_msg\<close>

text \<open>
  The attributes of \<open>extract_msg.Message(path)\<close> that \<open>parse_msg\<close> reads. The four header
  attributes are read with default \<open>""\<close> (\<open>None\<close> here: the attribute is missing); the two
  bodies through \<open>getattr(...) or ""\<close> (\<open>None\<close> here: missing, or holding \<open>None\<close>); the
  attachment list through \<open>getattr(m, "attachments", []) or []\<close>.
\<close>

record msg_file =
  m_sender :: "pystr option"
  m_to :: "pystr option"
  m_subject :: "pystr option"
  m_date :: "pystr option"
  m_body :: "pystr option"
  m_htmlBody :: "pystr option"
  m_attachments :: "handle list"

definition getattr_str :: "pystr option \<Rightarrow> pystr" where
  "getattr_str a = (case a of None \<Rightarrow> [] | Some s \<Rightarrow> s)"

text \<open>
  Line 103:
  \<^verbatim>\<open>getattr(att, "longFilename", None) or getattr(att, "filename", None) or "attachment"\<close>
\<close>

definition msg_attachment_name :: "handle \<Rightarrow> pystr" where
  "msg_attachment_name att =
     py_or (getattr_str (obj_longFilename att))
       (py_or (case obj_filename att of Val s \<Rightarrow> s | _ \<Rightarrow> []) (str ''attachment''))"

text \<open>
  The global \<open>extract_msg\<close> is the imported module, or \<open>None\<close> when the import failed; of
  the module only the constructor \<open>Message\<close> is used, which reads the file or raises.
\<close>

definition parse_msg :: "(pystr \<Rightarrow> exn + msg_file) option \<Rightarrow> pystr \<Rightarrow> exn + parsed" where
  "parse_msg extract_msg path =
     (case extract_msg of
        None \<Rightarrow>
          Inl (RuntimeError ''extract_msg is not installed. Install with: pip install extract_msg'')
      | Some Message \<Rightarrow>
          (case Message path of
             Inl e \<Rightarrow> Inl e
           | Inr m \<Rightarrow>
               Inr ([(str ''From'', getattr_str (m_sender m)),
                     (str ''To'', getattr_str (m_to m)),
                     (str ''Subject'', getattr_str (m_subject m)),
                     (str ''Date'', getattr_str (m_date m))],
                    getattr_str (m_body m),
                    getattr_str (m_htmlBody m),
                    map (\<lambda>att. \<lparr>filename = msg_attachment_name att, content_type = None,
                                 payload = None, obj = Some att\<rparr>)
                      (m_attachments m))))"

section \<open>The application state and open_email\<close>

text \<open>
  \<open>current_meta\<close> is \<open>{}\<close> (\<open>None\<close> here) until a file has been loaded, then the dict
  that \<open>open_email\<close> stores. A message box is recorded by its kind, its title and the
  values interpolated in its text. The widgets are not modelled.
\<close>

datatype file_type = EML | MSG | Other

record meta =
  headers :: "(pystr \<times> pystr) list"
  body_text :: pystr
  body_html :: pystr
  attachments :: "attachment list"
  filetype :: file_type

record app =
  current_path :: "pystr option"
  current_meta :: "meta option"

datatype fmt_arg = Str pystr | Exc exn | Num nat

datatype dialog =
    showinfo string "fmt_arg list"
  | showwarning string "fmt_arg list"
  | showerror string "fmt_arg list"

text \<open>
  What \<open>open_email\<close> takes from its platform: the parser of lines 37-38 (open the file and
  parse it, or raise), the replacement decoder of \<open>bytes.decode\<close>, the optional decoder
  module, and \<open>os.path.splitext(path)[1].lower()\<close>.
\<close>

record platform =
  read_message :: "pystr \<Rightarrow> exn + message"
  decode_replace :: "bytes \<Rightarrow> pystr"
  extract_msg :: "(pystr \<Rightarrow> exn + msg_file) option"
  splitext_lower :: "pystr \<Rightarrow> pystr"

definition parse_eml_path :: "platform \<Rightarrow> pystr \<Rightarrow> exn + parsed" where
  "parse_eml_path P path =
     (case read_message P path of
        Inl e \<Rightarrow> Inl e
      | Inr msg \<Rightarrow> parse_eml (decode_replace P) msg)"

text \<open>Lines 203-214: store the record, or show the error and keep the old record.\<close>

definition store_loaded :: "app \<Rightarrow> file_type \<Rightarrow> exn + parsed \<Rightarrow> app \<times> dialog list" where
  "store_loaded a t r =
     (case r of
        Inl e \<Rightarrow> (a, [showerror ''Error'' [Exc e]])
      | Inr (h, bt, bh, atts) \<Rightarrow>
          (a\<lparr>current_meta :=
               Some \<lparr>headers = h, body_text = bt, body_html = bh, attachments = atts,
                     filetype = t\<rparr>\<rparr>, []))"

text \<open>\<open>path\<close> is the answer of the file dialog, empty when the user cancels.\<close>

definition open_email :: "platform \<Rightarrow> app \<Rightarrow> pystr \<Rightarrow> app \<times> dialog list" where
  "open_email P a path =
     (if path = [] then (a, [])
      else
        (let a1 = a\<lparr>current_path := Some path\<rparr>;
             ext = splitext_lower P path
         in if ext = str ''.eml'' then store_loaded a1 EML (parse_eml_path P path)
            else if ext = str ''.msg'' then
              (if extract_msg P = None then (a1, [showwarning ''Missing dependency'' []])
               else store_loaded a1 MSG (parse_msg (extract_msg P) path))
            else store_loaded a1 EML (parse_eml_path P path)))"

section \<open>Saving attachments\<close>

text \<open>\<open>os.path.join(dest, name)\<close>, in its POSIX form.\<close>

definition os_path_join :: "pystr \<Rightarrow> pystr \<Rightarrow> pystr" where
  "os_path_join a b =
     (if b \<noteq> [] \<and> hd b = 0x2F then b
      else if a = [] \<or> last a = 0x2F then a @ b
      else a @ [0x2F] @ b)"

text \<open>\<open>str(n)\<close> for the f-string \<open>attachment_{saved}\<close>.\<close>

function str_nat :: "nat \<Rightarrow> pystr" where
  "str_nat n = (if n < 10 then [48 + n] else str_nat (n div 10) @ [48 + n mod 10])"
  by pat_completeness auto
termination
  by (relation "measure id") auto

declare str_nat.simps [simp del]

text \<open>\<open>a.get("payload") or b""\<close>\<close>

definition payload_or_empty :: "attachment \<Rightarrow> bytes" where
  "payload_or_empty a = (case payload a of None \<Rightarrow> [] | Some b \<Rightarrow> b)"

text \<open>
  \<open>getattr(obj, "data", None) or getattr(obj, "payload", None)\<close>, where \<open>obj\<close> may be
  \<open>None\<close>: the second attribute is read when the first is \<open>None\<close> or empty.
\<close>

definition raw_buffer :: "handle option \<Rightarrow> bytes option" where
  "raw_buffer ob =
     (case ob of
        None \<Rightarrow> None
      | Some h \<Rightarrow>
          (if obj_data h \<noteq> None \<and> obj_data h \<noteq> Some [] then obj_data h else obj_payload h))"

text \<open>\<open>if data:\<close> selects the buffer that is neither \<open>None\<close> nor empty.\<close>

definition writable_buffer :: "handle option \<Rightarrow> bytes option" where
  "writable_buffer ob =
     (case raw_buffer ob of
        None \<Rightarrow> None
      | Some data \<Rightarrow> (if data \<noteq> [] then Some data else None))"

text \<open>
  The nested \<open>try\<close> of lines 316-327, the same at lines 372-383: call
  \<open>obj.save(customPath=full)\<close>; on \<open>TypeError\<close> call \<open>obj.save(full)\<close>; on any exception
  of that call write the raw buffer if there is one, and raise that exception again
  if there is none. Any other exception of the first call is not handled here.
\<close>

definition try_save :: "save_method \<Rightarrow> handle option \<Rightarrow> pystr \<Rightarrow> world \<Rightarrow> exn option \<times> world" where
  "try_save sv ob full w =
     (case save_customPath sv full w of
        (None, w1) \<Rightarrow> (None, w1)
      | (Some e, w1) \<Rightarrow>
          (if e = TypeError then
             (case save_positional sv full w1 of
                (None, w2) \<Rightarrow> (None, w2)
              | (Some e2, w2) \<Rightarrow>
                  (case writable_buffer ob of
                     Some data \<Rightarrow> open_wb_write full data w2
                   | None \<Rightarrow> (Some e2, w2)))
           else (Some e, w1)))"

definition get_save :: "handle option \<Rightarrow> save_method option" where
  "get_save ob = (case ob of None \<Rightarrow> None | Some h \<Rightarrow> obj_save h)"

text \<open>
  Line 312: \<open>a.get("filename") or getattr(obj, "filename", "attachment")\<close>. The result
  is \<open>None\<close> when the attribute holds \<open>None\<close>; sanitizing it then raises \<open>TypeError\<close>.
\<close>

definition msg_save_name :: "attachment \<Rightarrow> pystr option" where
  "msg_save_name a =
     (if filename a \<noteq> [] then Some (filename a)
      else
        (case obj a of
           None \<Rightarrow> Some (str ''attachment'')
         | Some h \<Rightarrow>
             (case obj_filename h of
                Missing \<Rightarrow> Some (str ''attachment'')
              | IsNone \<Rightarrow> None
              | Val s \<Rightarrow> Some s)))"

text \<open>
  The body of the \<open>try\<close> in the loop of \<open>extract_attachments\<close> (lines 302-343) for one
  attachment: the exception that leaves it, if any, and the new world, counter and
  message boxes.
\<close>

definition extract_one ::
  "file_type \<Rightarrow> pystr \<Rightarrow> attachment \<Rightarrow> world \<times> nat \<times> dialog list
     \<Rightarrow> exn option \<times> world \<times> nat \<times> dialog list" where
  "extract_one t dest a s =
     (case s of (w, saved, boxes) \<Rightarrow>
        (case t of
           EML \<Rightarrow>
             (let fname = py_or (filename a) (str ''attachment_'' @ str_nat saved);
                  full = os_path_join dest (sanitize_filename fname)
              in case open_wb_write full (payload_or_empty a) w of
                   (None, w1) \<Rightarrow> (None, w1, saved + 1, boxes)
                 | (Some e, w1) \<Rightarrow> (Some e, w1, saved, boxes))
         | MSG \<Rightarrow>
             (case msg_save_name a of
                None \<Rightarrow> (Some TypeError, w, saved, boxes)
              | Some fname \<Rightarrow>
                  (let full = os_path_join dest (sanitize_filename fname)
                   in case get_save (obj a) of
                        Some sv \<Rightarrow>
                          (case try_save sv (obj a) full w of
                             (None, w1) \<Rightarrow> (None, w1, saved + 1, boxes)
                           | (Some e, w1) \<Rightarrow> (Some e, w1, saved, boxes))
                      | None \<Rightarrow>
                          (case writable_buffer (obj a) of
                             Some data \<Rightarrow>
                               (case open_wb_write full data w of
                                  (None, w1) \<Rightarrow> (None, w1, saved + 1, boxes)
                                | (Some e, w1) \<Rightarrow> (Some e, w1, saved, boxes))
                           | None \<Rightarrow>
                               (None, w, saved,
                                boxes @ [showwarning ''Warning'' [Str fname]]))))
         | Other \<Rightarrow>
             (case open_wb_write (os_path_join dest (filename a)) (payload_or_empty a) w of
                (None, w1) \<Rightarrow> (None, w1, saved + 1, boxes)
              | (Some e, w1) \<Rightarrow> (Some e, w1, saved, boxes))))"

text \<open>One turn of the loop: the body, and the \<open>except Exception\<close> of lines 344-346.\<close>

definition extract_step ::
  "file_type \<Rightarrow> pystr \<Rightarrow> world \<times> nat \<times> dialog list \<Rightarrow> attachment
     \<Rightarrow> world \<times> nat \<times> dialog list" where
  "extract_step t dest s a =
     (case extract_one t dest a s of
        (None, s1) \<Rightarrow> s1
      | (Some e, w1, saved1, boxes1) \<Rightarrow>
          (w1, saved1, boxes1 @ [showwarning ''Save error'' [Exc e]]))"

fun extract_loop ::
  "file_type \<Rightarrow> pystr \<Rightarrow> attachment list \<Rightarrow> world \<times> nat \<times> dialog list
     \<Rightarrow> world \<times> nat \<times> dialog list" where
  "extract_loop t dest [] s = s"
| "extract_loop t dest (a # rest) s = extract_loop t dest rest (extract_step t dest s a)"

text \<open>
  \<open>extract_attachments\<close>; \<open>dest\<close> is the answer of the directory dialog, empty when the
  user cancels. With no record loaded the attachment list is empty.
\<close>

definition extract_attachments :: "app \<Rightarrow> pystr \<Rightarrow> world \<Rightarrow> world \<times> dialog list" where
  "extract_attachments ap dest w =
     (case current_meta ap of
        None \<Rightarrow> (w, [showinfo ''No attachments'' []])
      | Some m \<Rightarrow>
          (if attachments m = [] then (w, [showinfo ''No attachments'' []])
           else if dest = [] then (w, [])
           else
             (case extract_loop (filetype m) dest (attachments m) (w, 0, []) of
                (w1, saved, boxes) \<Rightarrow>
                  (w1, boxes @ [showinfo ''Done'' [Num saved, Str dest]]))))"

text \<open>
  The body of the \<open>try\<close> in \<open>save_selected_attachment\<close> (lines 365-397) for the chosen
  attachment and the chosen destination file.
\<close>

definition save_selected_one ::
  "file_type \<Rightarrow> attachment \<Rightarrow> pystr \<Rightarrow> world \<Rightarrow> exn option \<times> world" where
  "save_selected_one t a dest_file w =
     (case t of
        EML \<Rightarrow> open_wb_write dest_file (payload_or_empty a) w
      | MSG \<Rightarrow>
          (case get_save (obj a) of
             Some sv \<Rightarrow> try_save sv (obj a) dest_file w
           | None \<Rightarrow>
               (case writable_buffer (obj a) of
                  Some data \<Rightarrow> open_wb_write dest_file data w
                | None \<Rightarrow> (Some (RuntimeError ''Attachment object not writable''), w)))
      | Other \<Rightarrow> open_wb_write dest_file (payload_or_empty a) w)"

text \<open>
  \<open>sel\<close> is the first selected index of the list box, if any; \<open>dest_file\<close> the answer
  of the save dialog, empty when the user cancels.
\<close>

definition save_selected_attachment ::
  "app \<Rightarrow> nat option \<Rightarrow> pystr \<Rightarrow> world \<Rightarrow> world \<times> dialog list" where
  "save_selected_attachment ap sel dest_file w =
     (case sel of
        None \<Rightarrow> (w, [showinfo ''Select'' []])
      | Some idx \<Rightarrow>
          (let atts = (case current_meta ap of None \<Rightarrow> [] | Some m \<Rightarrow> attachments m)
           in if idx \<ge> length atts then (w, [showerror ''Index error'' []])
              else if dest_file = [] then (w, [])
              else
                (case save_selected_one
                        (case current_meta ap of None \<Rightarrow> Other | Some m \<Rightarrow> filetype m)
                        (atts ! idx) dest_file w of
                   (None, w1) \<Rightarrow> (w1, [showinfo ''Saved'' [Str dest_file]])
                 | (Some e, w1) \<Rightarrow> (w1, [showerror ''Error'' [Exc e]]))))"

section \<open>The classification rule of the specification\<close>

text \<open>
  The specification's rule for the parts of a multipart message, in its own words: a
  part is an attachment if its disposition is \<open>attachment\<close> or it carries a filename (a
  name that is present and not empty); the attachment record holds the filename, with
  \<open>attachment\<close> as default, the content type and the decoded payload bytes. These
  definitions are not used by \<open>parse_eml\<close>; the theorems compare it with them.
\<close>

definition carries_filename :: "message \<Rightarrow> bool" where
  "carries_filename part =
     (case get_filename (node_fields part) of None \<Rightarrow> False | Some n \<Rightarrow> n \<noteq> [])"

definition classified_attachment :: "message \<Rightarrow> bool" where
  "classified_attachment part =
     (get_content_disposition (node_fields part) = Some (str ''attachment'')
      \<or> carries_filename part)"

definition attachment_record :: "message \<Rightarrow> attachment" where
  "attachment_record part =
     \<lparr>filename = (case get_filename (node_fields part) of
                    None \<Rightarrow> str ''attachment''
                  | Some n \<Rightarrow> (if n = [] then str ''attachment'' else n)),
      content_type = Some (get_content_type (node_fields part)),
      payload = get_payload_decode part,
      obj = None\<rparr>"

section \<open>Example inputs\<close>

definition mime_fields :: "string \<Rightarrow> string option \<Rightarrow> string option \<Rightarrow> part_fields" where
  "mime_fields ctype cdis fname =
     \<lparr>items = [], get_content_disposition = map_option str cdis, get_content_type = str ctype,
      get_filename = map_option str fname\<rparr>"

definition example_received :: message where
  "example_received =
     Leaf ((mime_fields ''text/plain'' None None)
             \<lparr>items := [(str ''Received'', str ''a''), (str ''Subject'', str ''s''),
                        (str ''Received'', str ''b'')]\<rparr>)
       ''hello'' (Inr (str ''hello''))"

definition example_inline_named :: message where
  "example_inline_named =
     Multipart (mime_fields ''multipart/mixed'' None None)
       [Leaf (mime_fields ''text/plain'' (Some ''inline'') (Some ''note.txt'')) ''side''
          (Inr (str ''side'')),
        Leaf (mime_fields ''text/plain'' None None) ''body'' (Inr (str ''body'')),
        Leaf (mime_fields ''application/pdf'' (Some ''attachment'') None) ''%PDF''
          (Inr [])]"

definition example_two_plain :: message where
  "example_two_plain =
     Multipart (mime_fields ''multipart/mixed'' None None)
       [Leaf (mime_fields ''text/plain'' None None) [] (Inr []),
        Leaf (mime_fields ''text/plain'' None None) ''second'' (Inr (str ''second''))]"

definition example_html :: message where
  "example_html =
     Leaf (mime_fields ''text/html'' None None) ''<p>hi</p>'' (Inr (str ''<p>hi</p>''))"

text \<open>A platform without the optional decoder; the extension is the last four characters.\<close>

definition example_platform :: platform where
  "example_platform =
     \<lparr>read_message = (\<lambda>path. Inl OSError),
      decode_replace = (\<lambda>b. []),
      extract_msg = None,
      splitext_lower = (\<lambda>path. drop (length path - 4) path)\<rparr>"

definition example_loaded :: app where
  "example_loaded =
     \<lparr>current_path = Some (str ''old.eml''),
      current_meta = Some \<lparr>headers = [], body_text = str ''old'', body_html = [],
                            attachments = [], filetype = EML\<rparr>\<rparr>"

text \<open>A world in which every path but one can be written, and attachments to save.\<close>

definition example_world :: world where
  "example_world = \<lparr>files = (\<lambda>p. None), writable = (\<lambda>p. p \<noteq> str ''out/locked.bin'')\<rparr>"

definition eml_attachment :: "string \<Rightarrow> bytes option \<Rightarrow> attachment" where
  "eml_attachment name b =
     \<lparr>filename = str name, content_type = Some (str ''application/octet-stream''),
      payload = b, obj = None\<rparr>"

text \<open>
  Two behaviours of a foreign \<open>save\<close> call: write some bytes at the path, or raise.
\<close>

definition writes_marker :: "bytes \<Rightarrow> pystr \<Rightarrow> world \<Rightarrow> exn option \<times> world" where
  "writes_marker b p w = (None, w\<lparr>files := (files w)(p := Some b)\<rparr>)"

definition raises :: "exn \<Rightarrow> pystr \<Rightarrow> world \<Rightarrow> exn option \<times> world" where
  "raises e p w = (Some e, w)"

definition msg_attachment :: "save_method option \<Rightarrow> bytes option \<Rightarrow> bytes option \<Rightarrow> attachment" where
  "msg_attachment sv d p =
     \<lparr>filename = str ''doc.bin'', content_type = None, payload = None,
      obj = Some \<lparr>obj_save = sv, obj_data = d, obj_payload = p,
                  obj_longFilename = Some (str ''doc.bin''), obj_filename = Missing\<rparr>\<rparr>"

section \<open>Theorems\<close>

subsection \<open>Stripping and sanitizing\<close>

lemma set_strip_subset: "set (strip s) \<subseteq> set s"
proof -
  have "set (strip s) \<subseteq> set (dropWhile py_isspace s)"
    unfolding strip_def using set_dropWhileD [of _ py_isspace "rev (dropWhile py_isspace s)"]
    by auto
  also have "\<dots> \<subseteq> set s"
    using set_dropWhileD [of _ py_isspace s] by auto
  finally show ?thesis .
qed

lemma dropWhile_unchanged: "xs \<noteq> [] \<Longrightarrow> \<not> P (hd xs) \<Longrightarrow> dropWhile P xs = xs"
  by (cases xs) auto

lemma strip_unchanged:
  assumes "s \<noteq> []" and "\<not> py_isspace (hd s)" and "\<not> py_isspace (last s)"
  shows "strip s = s"
proof -
  have front: "dropWhile py_isspace s = s"
    using assms(1,2) by (rule dropWhile_unchanged)
  have "rev s \<noteq> []" and "hd (rev s) = last s"
    using assms(1) by (simp_all add: hd_rev)
  then have "dropWhile py_isspace (rev s) = rev s"
    using assms(3) by (simp add: dropWhile_unchanged)
  with front show ?thesis
    by (simp add: strip_def)
qed

lemma strip_ends:
  assumes "strip s \<noteq> []"
  shows "\<not> py_isspace (hd (strip s))" and "\<not> py_isspace (last (strip s))"
proof -
  define t where "t = dropWhile py_isspace s"
  define u where "u = dropWhile py_isspace (rev t)"
  have su: "strip s = rev u"
    by (simp add: strip_def t_def u_def)
  with assms have u_ne: "u \<noteq> []" by simp
  then have "\<not> py_isspace (hd u)"
    unfolding u_def by (rule hd_dropWhile)
  then show "\<not> py_isspace (last (strip s))"
    using u_ne su by (simp add: last_rev)
  have "rev t = takeWhile py_isspace (rev t) @ u"
    by (simp add: u_def)
  then have "rev (rev t) = rev (takeWhile py_isspace (rev t) @ u)"
    by (rule arg_cong)
  then have t_split: "t = rev u @ rev (takeWhile py_isspace (rev t))"
    by simp
  then have "t \<noteq> []" using u_ne by auto
  then have "\<not> py_isspace (hd t)"
    unfolding t_def by (rule hd_dropWhile)
  moreover have "hd t = hd (rev u)"
    using u_ne by (subst t_split) simp
  ultimately show "\<not> py_isspace (hd (strip s))"
    using su by simp
qed

lemma strip_strip: "strip (strip s) = strip s"
proof (cases "strip s = []")
  case True
  moreover have "strip [] = []" by (simp add: strip_def)
  ultimately show ?thesis by simp
next
  case False
  then show ?thesis
    using strip_ends [of s] by (simp add: strip_unchanged)
qed

lemma attachment_clean: "set (str ''attachment'') \<inter> set forbidden_chars = {}"
  by (simp add: str_def forbidden_chars_def)

lemma attachment_ends:
  "str ''attachment'' \<noteq> []" "\<not> py_isspace (hd (str ''attachment''))"
  "\<not> py_isspace (last (str ''attachment''))"
  by (simp_all add: str_def py_isspace_def)

lemma sanitize_cases:
  "sanitize_filename name = str ''attachment'' \<or>
   (sanitize_filename name = strip (filter (\<lambda>c. c \<notin> set forbidden_chars) name) \<and>
    strip (filter (\<lambda>c. c \<notin> set forbidden_chars) name) \<noteq> [])"
  by (simp add: sanitize_filename_def py_or_def)

lemma sanitize_clean: "set (sanitize_filename name) \<inter> set forbidden_chars = {}"
proof -
  let ?kept = "filter (\<lambda>c. c \<notin> set forbidden_chars) name"
  have "set (strip ?kept) \<subseteq> set ?kept" by (rule set_strip_subset)
  then have "set (strip ?kept) \<inter> set forbidden_chars = {}" by auto
  then show ?thesis
    using attachment_clean by (simp add: sanitize_filename_def py_or_def)
qed

lemma sanitize_nonempty: "sanitize_filename name \<noteq> []"
  using attachment_ends(1) by (simp add: sanitize_filename_def py_or_def)

lemma sanitize_ends:
  "\<not> py_isspace (hd (sanitize_filename name))" "\<not> py_isspace (last (sanitize_filename name))"
  using sanitize_cases [of name] strip_ends [of "filter (\<lambda>c. c \<notin> set forbidden_chars) name"]
    attachment_ends by auto

lemma filter_clean: "set xs \<inter> set forbidden_chars = {} \<Longrightarrow> filter (\<lambda>c. c \<notin> set forbidden_chars) xs = xs"
  by (induction xs) auto

lemma sanitize_fixpoint:
  assumes "xs \<noteq> []" "set xs \<inter> set forbidden_chars = {}" "\<not> py_isspace (hd xs)" "\<not> py_isspace (last xs)"
  shows "sanitize_filename xs = xs"
  using assms by (simp add: sanitize_filename_def py_or_def filter_clean strip_unchanged)

text \<open>
  Claim C10. Sanitizing is idempotent: sanitizing a sanitized name gives the same name.
  The result is never empty, holds none of the nine forbidden characters, and neither
  starts nor ends with a whitespace character.
\<close>

theorem sanitize_filename_idempotent:
  "sanitize_filename (sanitize_filename name) = sanitize_filename name
   \<and> sanitize_filename name \<noteq> []
   \<and> set (sanitize_filename name) \<inter> set forbidden_chars = {}
   \<and> \<not> py_isspace (hd (sanitize_filename name))
   \<and> \<not> py_isspace (last (sanitize_filename name))"
  using sanitize_fixpoint [of "sanitize_filename name"]
    sanitize_nonempty [of name] sanitize_clean [of name] sanitize_ends [of name] by blast


lemma sanitize_plain:
  assumes "kept = filter (\<lambda>c. c \<notin> set forbidden_chars) name"
    and "kept \<noteq> []" and "\<not> py_isspace (hd kept)" and "\<not> py_isspace (last kept)"
  shows "sanitize_filename name = kept"
  using assms by (simp add: sanitize_filename_def py_or_def strip_unchanged)

lemma sanitize_all_illegal:
  assumes "set name \<subseteq> set forbidden_chars"
  shows "sanitize_filename name = str ''attachment''"
proof -
  have "filter (\<lambda>c. c \<notin> set forbidden_chars) name = []"
    using assms by (auto simp: filter_empty_conv)
  then show ?thesis
    by (simp add: sanitize_filename_def py_or_def strip_def)
qed

lemma sanitize_example:
  "sanitize_filename (str ''a/b'' @ [0x5C] @ str ''c:d*e?f'' @ [0x22] @ str ''g<h>i|j'')
     = str ''abcdefghij''"
  by (simp add: sanitize_filename_def str_def strip_def py_or_def forbidden_chars_def py_isspace_def)

text \<open>
  Claim C5. For every name the sanitized name holds no occurrence of any of the nine
  characters. When what is left of the name after their removal is not empty and has
  no whitespace at either end, the result is exactly that; when nothing is left, and
  so for a name made of forbidden characters only, the result is \<open>attachment\<close>. The
  name \<open>a/b\c:d*e?f"g<h>i|j\<close> gives \<open>abcdefghij\<close>.
\<close>

theorem sanitize_filename_removes_illegal:
  "set (sanitize_filename name) \<inter> set forbidden_chars = {}
   \<and> (filter (\<lambda>c. c \<notin> set forbidden_chars) name \<noteq> []
        \<and> \<not> py_isspace (hd (filter (\<lambda>c. c \<notin> set forbidden_chars) name))
        \<and> \<not> py_isspace (last (filter (\<lambda>c. c \<notin> set forbidden_chars) name))
      \<longrightarrow> sanitize_filename name = filter (\<lambda>c. c \<notin> set forbidden_chars) name)
   \<and> (filter (\<lambda>c. c \<notin> set forbidden_chars) name = []
      \<longrightarrow> sanitize_filename name = str ''attachment'')
   \<and> (set name \<subseteq> set forbidden_chars \<longrightarrow> sanitize_filename name = str ''attachment'')
   \<and> sanitize_filename (str ''a/b'' @ [0x5C] @ str ''c:d*e?f'' @ [0x22] @ str ''g<h>i|j'')
       = str ''abcdefghij''"
proof (intro conjI impI)
  show "set (sanitize_filename name) \<inter> set forbidden_chars = {}"
    by (rule sanitize_clean)
next
  assume "filter (\<lambda>c. c \<notin> set forbidden_chars) name \<noteq> []
        \<and> \<not> py_isspace (hd (filter (\<lambda>c. c \<notin> set forbidden_chars) name))
        \<and> \<not> py_isspace (last (filter (\<lambda>c. c \<notin> set forbidden_chars) name))"
  then show "sanitize_filename name = filter (\<lambda>c. c \<notin> set forbidden_chars) name"
    using sanitize_plain [OF refl, of name] by blast
next
  assume "filter (\<lambda>c. c \<notin> set forbidden_chars) name = []"
  then show "sanitize_filename name = str ''attachment''"
    by (simp add: sanitize_filename_def py_or_def strip_def)
next
  assume "set name \<subseteq> set forbidden_chars"
  then show "sanitize_filename name = str ''attachment''"
    by (rule sanitize_all_illegal)
next
  show "sanitize_filename (str ''a/b'' @ [0x5C] @ str ''c:d*e?f'' @ [0x22] @ str ''g<h>i|j'')
       = str ''abcdefghij''"
    by (rule sanitize_example)
qed

theorem sanitize_filename_removes_illegal_witness:
  "sanitize_filename (str ''re:port?.txt'') = str ''report.txt''
   \<and> sanitize_filename (str ''<>|'') = str ''attachment''
   \<and> sanitize_filename (str ''/:*'' @ [0x5C, 0x22]) = str ''attachment''"
proof -
  have a: "filter (\<lambda>c. c \<notin> set forbidden_chars) (str ''re:port?.txt'') = str ''report.txt''"
    by (simp add: str_def forbidden_chars_def)
  have b: "filter (\<lambda>c. c \<notin> set forbidden_chars) (str ''<>|'') = []"
    by (simp add: str_def forbidden_chars_def)
  have c: "set (str ''/:*'' @ [0x5C, 0x22]) \<subseteq> set forbidden_chars"
    by (simp add: str_def forbidden_chars_def)
  have d: "str ''report.txt'' \<noteq> [] \<and> \<not> py_isspace (hd (str ''report.txt''))
        \<and> \<not> py_isspace (last (str ''report.txt''))"
    by (simp add: str_def py_isspace_def)
  show ?thesis
    using sanitize_filename_removes_illegal [of "str ''re:port?.txt''"]
      sanitize_filename_removes_illegal [of "str ''<>|''"]
      sanitize_filename_removes_illegal [of "str ''/:*'' @ [0x5C, 0x22]"]
      a b c d by simp
qed

theorem sanitize_filename_idempotent_witness:
  "sanitize_filename (sanitize_filename (str '' a:b '')) = str ''ab''
   \<and> sanitize_filename (sanitize_filename (str ''??'')) = str ''attachment''"
proof -
  have a: "sanitize_filename (str '' a:b '') = str ''ab''"
    by (simp add: sanitize_filename_def str_def strip_def py_or_def forbidden_chars_def py_isspace_def)
  have b: "sanitize_filename (str ''??'') = str ''attachment''"
    by (simp add: sanitize_filename_def str_def strip_def py_or_def forbidden_chars_def py_isspace_def)
  show ?thesis
    using sanitize_filename_idempotent [of "str '' a:b ''"]
      sanitize_filename_idempotent [of "str ''??''"] a b by simp
qed

subsection \<open>Headers\<close>

lemma map_of_dict_setitem: "map_of (dict_setitem d k v) = (map_of d)(k \<mapsto> v)"
  by (induction d k v rule: dict_setitem.induct) auto

lemma keys_dict_setitem: "fst ` set (dict_setitem d k v) = insert k (fst ` set d)"
  by (induction d k v rule: dict_setitem.induct) auto

lemma distinct_dict_setitem:
  "distinct (map fst d) \<Longrightarrow> distinct (map fst (dict_setitem d k v))"
  by (induction d k v rule: dict_setitem.induct) (auto simp: keys_dict_setitem)

lemma foldl_setitem:
  "map_of (foldl (\<lambda>d (k, v). dict_setitem d k v) d0 pairs) = map_of d0 ++ map_of (rev pairs)"
proof (induction pairs arbitrary: d0)
  case Nil
  then show ?case by simp
next
  case (Cons p pairs)
  obtain k v where p: "p = (k, v)" by (cases p)
  have "map_of (dict_setitem d0 k v) ++ map_of (rev pairs)
          = map_of d0 ++ ([k \<mapsto> v] ++ map_of (rev pairs))"
    by (simp add: map_of_dict_setitem fun_eq_iff map_add_def split: option.splits)
  then show ?case
    using Cons.IH [of "dict_setitem d0 k v"] by (simp add: p)
qed

lemma foldl_setitem_distinct:
  "distinct (map fst d0) \<Longrightarrow> distinct (map fst (foldl (\<lambda>d (k, v). dict_setitem d k v) d0 pairs))"
  by (induction pairs arbitrary: d0) (auto simp: distinct_dict_setitem split: prod.splits)

lemma map_of_py_dict: "map_of (py_dict pairs) = map_of (rev pairs)"
  by (simp add: py_dict_def foldl_setitem)

lemma distinct_py_dict: "distinct (map fst (py_dict pairs))"
  by (simp add: py_dict_def foldl_setitem_distinct)

lemma map_of_rev_last:
  "(k, v) \<in> set pairs \<Longrightarrow>
     map_of (rev pairs) k = Some (snd (last (filter (\<lambda>p. fst p = k) pairs)))"
proof (induction pairs rule: rev_induct)
  case Nil
  then show ?case by simp
next
  case (snoc p pairs)
  show ?case
  proof (cases "fst p = k")
    case True
    then show ?thesis by (cases p) simp
  next
    case False
    with snoc.prems have "(k, v) \<in> set pairs" by auto
    with snoc.IH False show ?thesis by (cases p) simp
  qed
qed

lemma once_if_distinct:
  "distinct (map fst d) \<Longrightarrow> k \<in> fst ` set d \<Longrightarrow> length (filter (\<lambda>p. fst p = k) d) = 1"
proof (induction d)
  case Nil
  then show ?case by simp
next
  case (Cons p d)
  show ?case
  proof (cases "fst p = k")
    case True
    from Cons.prems(1) have "fst p \<notin> fst ` set d" by simp
    with True have "\<forall>q \<in> set d. fst q \<noteq> k" by blast
    then have "filter (\<lambda>p. fst p = k) d = []" by (simp add: filter_empty_conv)
    with True show ?thesis by simp
  next
    case False
    with Cons show ?thesis by auto
  qed
qed

lemma py_dict_entry:
  assumes "(k, v) \<in> set pairs"
  shows "length (filter (\<lambda>p. fst p = k) (py_dict pairs)) = 1"
    and "map_of (py_dict pairs) k = Some (snd (last (filter (\<lambda>p. fst p = k) pairs)))"
proof -
  have "map_of (py_dict pairs) k \<noteq> None"
    using assms map_of_rev_last [OF assms] by (simp add: map_of_py_dict)
  then have "k \<in> fst ` set (py_dict pairs)"
    by (simp add: map_of_eq_None_iff)
  then show "length (filter (\<lambda>p. fst p = k) (py_dict pairs)) = 1"
    using distinct_py_dict by (rule once_if_distinct [rotated])
  show "map_of (py_dict pairs) k = Some (snd (last (filter (\<lambda>p. fst p = k) pairs)))"
    using assms by (simp add: map_of_py_dict map_of_rev_last)
qed

lemma parse_eml_headers:
  "parse_eml decode msg = Inr (hs, bt, bh, atts) \<Longrightarrow> hs = py_dict (items (node_fields msg))"
  by (auto simp: parse_eml_def Let_def split: if_splits sum.splits prod.splits)

text \<open>
  Claim C9. When \<open>parse_eml\<close> returns, every header name that occurs among the fields of
  the message, however often, occurs exactly once in the returned headers, bound to the
  value of its last occurrence in file order. Names are compared as Python compares
  dict keys, character by character.
\<close>

theorem parse_eml_headers_last_wins:
  assumes "parse_eml decode msg = Inr (hs, bt, bh, atts)"
    and "(name, v) \<in> set (items (node_fields msg))"
  shows "length (filter (\<lambda>p. fst p = name) hs) = 1
       \<and> map_of hs name
           = Some (snd (last (filter (\<lambda>p. fst p = name) (items (node_fields msg)))))"
  using py_dict_entry [OF assms(2)] parse_eml_headers [OF assms(1)] by simp

lemma example_received_parse:
  "parse_eml decode example_received =
     Inr ([(str ''Received'', str ''b''), (str ''Subject'', str ''s'')], str ''hello'', [], [])"
  by (simp add: parse_eml_def example_received_def mime_fields_def py_dict_def str_def)

theorem parse_eml_headers_last_wins_witness:
  "parse_eml (\<lambda>b. []) example_received =
     Inr ([(str ''Received'', str ''b''), (str ''Subject'', str ''s'')], str ''hello'', [], [])
   \<and> (str ''Received'', str ''a'') \<in> set (items (node_fields example_received))
   \<and> length (filter (\<lambda>p. fst p = str ''Received'')
        [(str ''Received'', str ''b''), (str ''Subject'', str ''s'')]) = 1
   \<and> map_of [(str ''Received'', str ''b''), (str ''Subject'', str ''s'')] (str ''Received'')
        = Some (str ''b'')"
proof -
  have m: "(str ''Received'', str ''a'') \<in> set (items (node_fields example_received))"
    by (simp add: example_received_def mime_fields_def)
  have l: "snd (last (filter (\<lambda>p. fst p = str ''Received'') (items (node_fields example_received))))
             = str ''b''"
    by (simp add: example_received_def mime_fields_def str_def)
  show ?thesis
    using parse_eml_headers_last_wins [OF example_received_parse [of "\<lambda>b. []"] m] m l
      example_received_parse [of "\<lambda>b. []"]
    by simp
qed

text \<open>
  Claim C7. For a message that is not multipart and whose content decodes to \<open>s\<close>:
  with content type \<open>text/plain\<close>, \<open>parse_eml\<close> returns \<open>s\<close> as the text body, an empty
  HTML body and no attachment; with \<open>text/html\<close>, \<open>s\<close> as the HTML body, an empty text
  body and no attachment.
\<close>

theorem parse_eml_single_part:
  assumes "\<not> is_multipart msg" and "get_content msg = Inr s"
  shows "(get_content_type (node_fields msg) = str ''text/plain'' \<longrightarrow>
            parse_eml decode msg = Inr (py_dict (items (node_fields msg)), s, [], []))
       \<and> (get_content_type (node_fields msg) = str ''text/html'' \<longrightarrow>
            parse_eml decode msg = Inr (py_dict (items (node_fields msg)), [], s, []))"
proof -
  have "str ''text/html'' \<noteq> str ''text/plain''"
    by (simp add: str_def)
  with assms show ?thesis
    by (simp add: parse_eml_def)
qed

theorem parse_eml_single_part_witness:
  "parse_eml (\<lambda>b. []) example_html = Inr ([], [], str ''<p>hi</p>'', [])
   \<and> parse_eml (\<lambda>b. []) example_received =
       Inr ([(str ''Received'', str ''b''), (str ''Subject'', str ''s'')], str ''hello'', [], [])"
proof -
  have h: "\<not> is_multipart example_html" "get_content example_html = Inr (str ''<p>hi</p>'')"
    "get_content_type (node_fields example_html) = str ''text/html''"
    "py_dict (items (node_fields example_html)) = []"
    by (simp_all add: example_html_def mime_fields_def py_dict_def)
  have r: "\<not> is_multipart example_received" "get_content example_received = Inr (str ''hello'')"
    "get_content_type (node_fields example_received) = str ''text/plain''"
    "py_dict (items (node_fields example_received))
       = [(str ''Received'', str ''b''), (str ''Subject'', str ''s'')]"
    by (simp_all add: example_received_def mime_fields_def py_dict_def str_def)
  show ?thesis
    using parse_eml_single_part [OF h(1,2), of "\<lambda>b. []"]
      parse_eml_single_part [OF r(1,2), of "\<lambda>b. []"] h(3,4) r(3,4)
    by simp
qed

subsection \<open>The walk over the parts\<close>

lemma walk_step_attachment:
  assumes "classified_attachment part"
  shows "walk_step decode part (bt, bh, atts) = Inr (bt, bh, atts @ [attachment_record part])"
  using assms
  by (auto simp: classified_attachment_def carries_filename_def attachment_record_def py_or_def
      split: option.splits)

lemma walk_step_body:
  assumes "\<not> classified_attachment part"
    and "walk_step decode part (bt, bh, atts) = Inr (bt', bh', atts')"
  shows "atts' = atts" and "walk_step decode part (bt, bh, atts0) = Inr (bt', bh', atts0)"
  using assms
  by (auto simp: classified_attachment_def carries_filename_def Let_def
      split: option.splits if_splits sum.splits)

lemma walk_loop_split:
  assumes "walk_loop decode parts (bt, bh, atts) = Inr (bt', bh', atts')"
  shows "atts' = atts @ map attachment_record (filter classified_attachment parts)
       \<and> walk_loop decode (filter (\<lambda>p. \<not> classified_attachment p) parts) (bt, bh, atts0)
           = Inr (bt', bh', atts0)"
  using assms
proof (induction parts arbitrary: bt bh atts)
  case Nil
  then show ?case by simp
next
  case (Cons part rest)
  show ?case
  proof (cases "classified_attachment part")
    case True
    with Cons.prems
    have "walk_loop decode rest (bt, bh, atts @ [attachment_record part]) = Inr (bt', bh', atts')"
      by (simp add: walk_step_attachment del: walk_step.simps)
    from Cons.IH [OF this] True show ?thesis by simp
  next
    case False
    from Cons.prems obtain bt1 bh1 atts1
      where step: "walk_step decode part (bt, bh, atts) = Inr (bt1, bh1, atts1)"
        and rest: "walk_loop decode rest (bt1, bh1, atts1) = Inr (bt', bh', atts')"
      by (auto simp del: walk_step.simps split: sum.splits)
    from walk_step_body [OF False step]
    have a1: "atts1 = atts"
      and s0: "walk_step decode part (bt, bh, atts0) = Inr (bt1, bh1, atts0)"
      by simp_all
    from Cons.IH [OF rest] a1 s0 False show ?thesis
      by (simp del: walk_step.simps)
  qed
qed

lemma parse_eml_multipart:
  assumes "is_multipart msg" and "parse_eml decode msg = Inr (hs, bt, bh, atts)"
  shows "walk_loop decode (walk msg) ([], [], []) = Inr (bt, bh, atts)"
  using assms by (auto simp: parse_eml_def split: sum.splits)

text \<open>
  Claim C1. For a multipart message on which \<open>parse_eml\<close> returns, the attachments are
  exactly the attachment records of the walked parts that the rule classifies as
  attachments (disposition \<open>attachment\<close>, or a filename whatever the disposition), in
  walk order: a part is recorded if and only if the rule holds for it. The two bodies
  are what the loop computes from the other parts alone, so an attachment part is never
  a body part. In particular every walked part with disposition \<open>inline\<close> and a
  filename has its record among the attachments.
\<close>

theorem parse_eml_attachment_rule:
  assumes "is_multipart msg" and "parse_eml decode msg = Inr (hs, bt, bh, atts)"
  shows "atts = map attachment_record (filter classified_attachment (walk msg))
       \<and> walk_loop decode (filter (\<lambda>p. \<not> classified_attachment p) (walk msg)) ([], [], [])
           = Inr (bt, bh, [])
       \<and> (\<forall>part \<in> set (walk msg).
             get_content_disposition (node_fields part) = Some (str ''inline'')
             \<and> carries_filename part
             \<longrightarrow> attachment_record part \<in> set atts)"
proof -
  from walk_loop_split [OF parse_eml_multipart [OF assms], of "[]"]
  have atts: "atts = map attachment_record (filter classified_attachment (walk msg))"
    and bodies: "walk_loop decode (filter (\<lambda>p. \<not> classified_attachment p) (walk msg))
                   ([], [], []) = Inr (bt, bh, [])"
    by simp_all
  have "attachment_record part \<in> set atts"
    if "part \<in> set (walk msg)" and "carries_filename part" for part
    using that by (simp add: atts classified_attachment_def)
  with atts bodies show ?thesis by blast
qed

lemma example_inline_named_parse:
  "parse_eml decode example_inline_named =
     Inr ([], str ''body'', [],
          [\<lparr>filename = str ''note.txt'', content_type = Some (str ''text/plain''),
            payload = Some ''side'', obj = None\<rparr>,
           \<lparr>filename = str ''attachment'', content_type = Some (str ''application/pdf''),
            payload = Some ''%PDF'', obj = None\<rparr>])"
  by (simp add: parse_eml_def example_inline_named_def mime_fields_def py_dict_def str_def
      py_or_def get_body_def)

theorem parse_eml_attachment_rule_witness:
  "is_multipart example_inline_named
   \<and> parse_eml (\<lambda>b. []) example_inline_named =
       Inr ([], str ''body'', [],
          [\<lparr>filename = str ''note.txt'', content_type = Some (str ''text/plain''),
            payload = Some ''side'', obj = None\<rparr>,
           \<lparr>filename = str ''attachment'', content_type = Some (str ''application/pdf''),
            payload = Some ''%PDF'', obj = None\<rparr>])
   \<and> map attachment_record (filter classified_attachment (walk example_inline_named)) =
          [\<lparr>filename = str ''note.txt'', content_type = Some (str ''text/plain''),
            payload = Some ''side'', obj = None\<rparr>,
           \<lparr>filename = str ''attachment'', content_type = Some (str ''application/pdf''),
            payload = Some ''%PDF'', obj = None\<rparr>]"
proof -
  have m: "is_multipart example_inline_named"
    by (simp add: example_inline_named_def)
  show ?thesis
    using parse_eml_attachment_rule [OF m example_inline_named_parse [of "\<lambda>b. []"]] m
      example_inline_named_parse [of "\<lambda>b. []"]
    by simp
qed

text \<open>
  Once a body is not empty the loop never replaces it: parts after the first one with
  non-empty content are discarded.
\<close>

lemma walk_step_keeps_bodies:
  assumes "walk_step decode part (bt, bh, atts) = Inr (bt', bh', atts')"
  shows "(bt \<noteq> [] \<longrightarrow> bt' = bt) \<and> (bh \<noteq> [] \<longrightarrow> bh' = bh)"
  using assms by (auto simp: Let_def split: if_splits sum.splits)

lemma walk_loop_keeps_bodies:
  assumes "walk_loop decode parts (bt, bh, atts) = Inr (bt', bh', atts')"
  shows "(bt \<noteq> [] \<longrightarrow> bt' = bt) \<and> (bh \<noteq> [] \<longrightarrow> bh' = bh)"
  using assms
proof (induction parts arbitrary: bt bh atts)
  case Nil
  then show ?case by simp
next
  case (Cons part rest)
  from Cons.prems obtain bt1 bh1 atts1
    where step: "walk_step decode part (bt, bh, atts) = Inr (bt1, bh1, atts1)"
      and rest: "walk_loop decode rest (bt1, bh1, atts1) = Inr (bt', bh', atts')"
    by (auto simp del: walk_step.simps split: sum.splits)
  from walk_step_keeps_bodies [OF step] Cons.IH [OF rest] show ?case
    by auto
qed

text \<open>
  Claim C2. The claim says that of several \<open>text/plain\<close> parts that are not attachments
  only the first populates \<open>body_text\<close>. The loop tests \<open>not body_text\<close> to see whether
  a text body has been captured, so a first part whose content is empty leaves the test
  true: on a message with an empty \<open>text/plain\<close> part followed by a \<open>text/plain\<close> part
  with content \<open>second\<close>, \<open>parse_eml\<close> returns the second part's content. The comment
  on line 60 reads "Capture first plain text and first html body".
\<close>

theorem parse_eml_empty_first_plain_part:
  "parse_eml decode example_two_plain = Inr ([], str ''second'', [], [])"
  by (simp add: parse_eml_def example_two_plain_def mime_fields_def py_dict_def str_def
      get_body_def)

subsection \<open>The missing decoder\<close>

text \<open>
  Claim C4. Without the optional decoder \<open>parse_msg\<close> returns the error for every
  path: no record is produced, and nothing of the file is read, since the decoder is
  the only reader. Storing that result leaves the loaded record as it was; and
  \<open>open_email\<close>, for a path with extension \<open>.msg\<close>, shows the missing-dependency
  warning and leaves the loaded record as it was.
\<close>

theorem parse_msg_decoder_unavailable:
  "parse_msg None path =
     Inl (RuntimeError ''extract_msg is not installed. Install with: pip install extract_msg'')
   \<and> current_meta (fst (store_loaded a t (parse_msg None path))) = current_meta a
   \<and> (extract_msg P = None \<and> path \<noteq> [] \<and> splitext_lower P path = str ''.msg'' \<longrightarrow>
        current_meta (fst (open_email P a path)) = current_meta a
        \<and> snd (open_email P a path) = [showwarning ''Missing dependency'' []])"
proof -
  have "str ''.msg'' \<noteq> str ''.eml''"
    by (simp add: str_def)
  then show ?thesis
    by (simp add: parse_msg_def store_loaded_def open_email_def)
qed

theorem parse_msg_decoder_unavailable_witness:
  "extract_msg example_platform = None
   \<and> splitext_lower example_platform (str ''mail.msg'') = str ''.msg''
   \<and> current_meta (fst (open_email example_platform example_loaded (str ''mail.msg'')))
       = current_meta example_loaded
   \<and> snd (open_email example_platform example_loaded (str ''mail.msg''))
       = [showwarning ''Missing dependency'' []]"
proof -
  have p: "extract_msg example_platform = None" "str ''mail.msg'' \<noteq> []"
    "splitext_lower example_platform (str ''mail.msg'') = str ''.msg''"
    by (simp_all add: example_platform_def str_def)
  show ?thesis
    using parse_msg_decoder_unavailable
        [where P = example_platform and path = "str ''mail.msg''" and a = example_loaded] p
    by simp
qed

subsection \<open>Saving eml attachments\<close>

lemma open_wb_write_ok:
  "writable w p \<Longrightarrow> open_wb_write p b w = (None, w\<lparr>files := (files w)(p := Some b)\<rparr>)"
  by (simp add: open_wb_write_def)

lemma open_wb_write_fails: "\<not> writable w p \<Longrightarrow> open_wb_write p b w = (Some OSError, w)"
  by (simp add: open_wb_write_def)

text \<open>
  Claim C8. For an eml attachment whose payload is absent or zero-length, one turn of the
  batch loop whose destination path can be opened for writing leaves that file
  existing and empty, adds one to the count of saved attachments and shows no message
  box; saving it as the selected attachment to a writable path does the same to that
  path and raises nothing.
\<close>

theorem extract_eml_empty_payload:
  assumes "payload a = None \<or> payload a = Some []"
  shows "(writable w (os_path_join dest (sanitize_filename
             (py_or (filename a) (str ''attachment_'' @ str_nat saved)))) \<longrightarrow>
          extract_step EML dest (w, saved, boxes) a =
            (w\<lparr>files := (files w)
                 (os_path_join dest (sanitize_filename
                    (py_or (filename a) (str ''attachment_'' @ str_nat saved))) := Some [])\<rparr>,
             saved + 1, boxes))
       \<and> (writable w dest_file \<longrightarrow>
          save_selected_one EML a dest_file w =
            (None, w\<lparr>files := (files w)(dest_file := Some [])\<rparr>))"
proof -
  from assms have "payload_or_empty a = []"
    by (auto simp: payload_or_empty_def)
  then show ?thesis
    by (simp add: extract_step_def extract_one_def save_selected_one_def open_wb_write_ok)
qed

theorem extract_eml_empty_payload_witness:
  "extract_step EML (str ''out'') (example_world, 0, []) (eml_attachment ''a:b.txt'' (Some [])) =
     (example_world\<lparr>files := (files example_world)(str ''out/ab.txt'' := Some [])\<rparr>, 1, [])
   \<and> files (fst (extract_step EML (str ''out'') (example_world, 4, [])
                  (eml_attachment [] None))) (str ''out/attachment_4'') = Some []"
proof -
  have n: "os_path_join (str ''out'') (sanitize_filename
             (py_or (filename (eml_attachment ''a:b.txt'' (Some [])))
                (str ''attachment_'' @ str_nat 0))) = str ''out/ab.txt''"
    by (simp add: os_path_join_def sanitize_filename_def py_or_def eml_attachment_def str_def
        strip_def forbidden_chars_def py_isspace_def)
  have d: "str_nat 4 = [52]"
    by (simp add: str_nat.simps)
  have m: "os_path_join (str ''out'') (sanitize_filename
             (py_or (filename (eml_attachment [] None))
                (str ''attachment_'' @ str_nat 4))) = str ''out/attachment_4''"
    by (simp add: d os_path_join_def sanitize_filename_def py_or_def eml_attachment_def str_def
        strip_def forbidden_chars_def py_isspace_def)
  have w: "writable example_world (str ''out/ab.txt'')"
    "writable example_world (str ''out/attachment_4'')"
    by (simp_all add: example_world_def str_def)
  have p: "payload (eml_attachment ''a:b.txt'' (Some [])) = None
            \<or> payload (eml_attachment ''a:b.txt'' (Some [])) = Some []"
    "payload (eml_attachment [] None) = None \<or> payload (eml_attachment [] None) = Some []"
    by (simp_all add: eml_attachment_def)
  show ?thesis
    using extract_eml_empty_payload [OF p(1), of example_world "str ''out''" 0 "[]"]
      extract_eml_empty_payload [OF p(2), of example_world "str ''out''" 4 "[]"] n m w
    by simp
qed

subsection \<open>The batch\<close>

lemma extract_loop_append:
  "extract_loop t dest (xs @ ys) s = extract_loop t dest ys (extract_loop t dest xs s)"
  by (induction xs arbitrary: s) simp_all

lemma extract_one_shape:
  assumes "extract_one t dest a (w, saved, boxes) = (r, w', saved', boxes')"
  shows "(r = None \<and> saved' = saved + 1 \<and> boxes' = boxes)
       \<or> (r = None \<and> saved' = saved \<and> (\<exists>f. boxes' = boxes @ [showwarning ''Warning'' [Str f]]))
       \<or> (r \<noteq> None \<and> saved' = saved \<and> boxes' = boxes)"
  using assms
  by (auto simp: extract_one_def Let_def
      split: file_type.splits option.splits prod.splits)

lemma extract_step_shape:
  assumes "extract_step t dest (w, saved, boxes) a = (w', saved', boxes')"
  shows "(saved' = saved + 1 \<and> boxes' = boxes \<and> fst (extract_one t dest a (w, saved, boxes)) = None)
       \<or> (saved' = saved \<and> (\<exists>title args. boxes' = boxes @ [showwarning title args]))"
proof -
  obtain r w1 saved1 boxes1
    where one: "extract_one t dest a (w, saved, boxes) = (r, w1, saved1, boxes1)"
    by (cases "extract_one t dest a (w, saved, boxes)") auto
  from extract_one_shape [OF one] assms one show ?thesis
    by (auto simp: extract_step_def split: option.splits)
qed

lemma extract_step_raised:
  assumes "extract_one t dest a (w, saved, boxes) = (Some e, w1, saved1, boxes1)"
  shows "extract_step t dest (w, saved, boxes) a
           = (w1, saved, boxes @ [showwarning ''Save error'' [Exc e]])"
  using extract_one_shape [OF assms] assms by (simp add: extract_step_def)

lemma extract_loop_count:
  assumes "extract_loop t dest atts (w, saved, boxes) = (w', saved', boxes')"
  shows "saved' + length boxes' = saved + length boxes + length atts"
  using assms
proof (induction atts arbitrary: w saved boxes)
  case Nil
  then show ?case by simp
next
  case (Cons a atts)
  obtain w1 saved1 boxes1
    where step: "extract_step t dest (w, saved, boxes) a = (w1, saved1, boxes1)"
    by (cases "extract_step t dest (w, saved, boxes) a") auto
  with Cons.prems have "extract_loop t dest atts (w1, saved1, boxes1) = (w', saved', boxes')"
    by simp
  from Cons.IH [OF this] extract_step_shape [OF step] show ?case
    by auto
qed

text \<open>
  Claim C6. In the batch loop every attachment is attempted, in the state its
  predecessors left, whatever happened to them. A turn either adds one to the count and
  shows nothing, its body having raised nothing, or leaves the count and shows exactly
  one warning; a turn whose body raises leaves the count and reports that exception.
  So at the end the count plus the number of warnings is the number of attachments.
\<close>

theorem extract_loop_isolates_failures:
  "extract_loop t dest (before @ a # after) s
     = extract_loop t dest after (extract_step t dest (extract_loop t dest before s) a)
   \<and> (extract_loop t dest atts (w, saved, boxes) = (w', saved', boxes') \<longrightarrow>
        saved' + length boxes' = saved + length boxes + length atts)
   \<and> (extract_step t dest (w, saved, boxes) a = (w', saved', boxes') \<longrightarrow>
        (saved' = saved + 1 \<and> boxes' = boxes
           \<and> fst (extract_one t dest a (w, saved, boxes)) = None)
        \<or> (saved' = saved \<and> (\<exists>title args. boxes' = boxes @ [showwarning title args])))
   \<and> (extract_one t dest a (w, saved, boxes) = (Some e, w1, saved1, boxes1) \<longrightarrow>
        extract_step t dest (w, saved, boxes) a
          = (w1, saved, boxes @ [showwarning ''Save error'' [Exc e]]))"
  using extract_loop_count extract_step_shape extract_step_raised
  by (simp add: extract_loop_append)

theorem extract_loop_isolates_failures_witness:
  "(case extract_loop EML (str ''out'')
           [eml_attachment ''one.txt'' (Some ''1''), eml_attachment ''locked.bin'' (Some ''2''),
            eml_attachment ''three.txt'' (Some ''3'')] (example_world, 0, []) of
      (w, saved, boxes) \<Rightarrow>
        saved = 2 \<and> boxes = [showwarning ''Save error'' [Exc OSError]]
        \<and> files w (str ''out/one.txt'') = Some ''1''
        \<and> files w (str ''out/locked.bin'') = None
        \<and> files w (str ''out/three.txt'') = Some ''3'')"
proof -
  have n: "os_path_join (str ''out'') (sanitize_filename (str ''one.txt'')) = str ''out/one.txt''"
    "os_path_join (str ''out'') (sanitize_filename (str ''locked.bin'')) = str ''out/locked.bin''"
    "os_path_join (str ''out'') (sanitize_filename (str ''three.txt'')) = str ''out/three.txt''"
    by (simp_all add: os_path_join_def sanitize_filename_def py_or_def str_def
        strip_def forbidden_chars_def py_isspace_def)
  have ne: "str ''one.txt'' \<noteq> []" "str ''locked.bin'' \<noteq> []" "str ''three.txt'' \<noteq> []"
    by (simp_all add: str_def)
  have wr: "writable example_world (str ''out/one.txt'')"
    "\<not> writable example_world (str ''out/locked.bin'')"
    "writable example_world (str ''out/three.txt'')"
    by (simp_all add: example_world_def str_def)
  have s1: "extract_loop EML (str ''out'') [eml_attachment ''one.txt'' (Some ''1'')]
              (example_world, 0, [])
            = (example_world\<lparr>files := (files example_world)(str ''out/one.txt'' := Some ''1'')\<rparr>,
               1, [])"
    by (simp add: extract_step_def extract_one_def eml_attachment_def py_or_def ne n wr
        payload_or_empty_def open_wb_write_def Let_def)
  have s2: "extract_step EML (str ''out'')
              (example_world\<lparr>files := (files example_world)(str ''out/one.txt'' := Some ''1'')\<rparr>,
               1, []) (eml_attachment ''locked.bin'' (Some ''2''))
            = (example_world\<lparr>files := (files example_world)(str ''out/one.txt'' := Some ''1'')\<rparr>,
               1, [showwarning ''Save error'' [Exc OSError]])"
    by (simp add: extract_step_def extract_one_def eml_attachment_def py_or_def ne n wr
        payload_or_empty_def open_wb_write_def Let_def)
  have s3: "extract_loop EML (str ''out'') [eml_attachment ''three.txt'' (Some ''3'')]
              (example_world\<lparr>files := (files example_world)(str ''out/one.txt'' := Some ''1'')\<rparr>,
               1, [showwarning ''Save error'' [Exc OSError]])
            = (example_world\<lparr>files := (files example_world)
                 (str ''out/one.txt'' := Some ''1'', str ''out/three.txt'' := Some ''3'')\<rparr>,
               2, [showwarning ''Save error'' [Exc OSError]])"
    by (simp add: extract_step_def extract_one_def eml_attachment_def py_or_def ne n wr
        payload_or_empty_def open_wb_write_def Let_def)
  have "extract_loop EML (str ''out'')
           ([eml_attachment ''one.txt'' (Some ''1'')] @ eml_attachment ''locked.bin'' (Some ''2'')
            # [eml_attachment ''three.txt'' (Some ''3'')]) (example_world, 0, [])
        = (example_world\<lparr>files := (files example_world)
                 (str ''out/one.txt'' := Some ''1'', str ''out/three.txt'' := Some ''3'')\<rparr>,
               2, [showwarning ''Save error'' [Exc OSError]])"
    using extract_loop_isolates_failures
        [where t = EML and dest = "str ''out''"
           and before = "[eml_attachment ''one.txt'' (Some ''1'')]"
           and a = "eml_attachment ''locked.bin'' (Some ''2'')"
           and after = "[eml_attachment ''three.txt'' (Some ''3'')]"
           and s = "(example_world, 0, [])"]
    by (simp only: s1 s2 s3)
  then show ?thesis
    by (simp add: example_world_def str_def)
qed

subsection \<open>Saving one .msg attachment\<close>

lemma try_save_first:
  "save_customPath sv p w = (None, w1) \<Longrightarrow> try_save sv ob p w = (None, w1)"
  by (simp add: try_save_def)

lemma try_save_retry:
  "save_customPath sv p w = (Some TypeError, w1) \<Longrightarrow> save_positional sv p w1 = (None, w2)
     \<Longrightarrow> try_save sv ob p w = (None, w2)"
  by (simp add: try_save_def)

lemma try_save_raised:
  assumes "try_save sv ob p w = (Some e, w')"
  shows "\<exists>e1 w1. save_customPath sv p w = (Some e1, w1)
           \<and> (e1 = TypeError \<longrightarrow>
                (\<exists>e2 w2. save_positional sv p w1 = (Some e2, w2)
                   \<and> (writable_buffer ob = None \<or> \<not> writable w2 p)))"
  using assms
  by (auto simp: try_save_def open_wb_write_def
      split: prod.splits option.splits if_splits)

lemma writable_buffer_fields:
  assumes "ob = Some h" and "d \<noteq> []"
    and "obj_data h = Some d \<or> ((obj_data h = None \<or> obj_data h = Some []) \<and> obj_payload h = Some d)"
  shows "writable_buffer ob = Some d"
  using assms by (auto simp: writable_buffer_def raw_buffer_def)

lemma save_selected_raw:
  assumes "get_save (obj a) = None" and "writable_buffer (obj a) = Some d" and "writable w p"
  shows "save_selected_one MSG a p w = (None, w\<lparr>files := (files w)(p := Some d)\<rparr>)"
  using assms by (simp add: save_selected_one_def open_wb_write_def)

lemma save_selected_raised:
  assumes "save_selected_one MSG a p w = (Some e, w')"
  shows "(case get_save (obj a) of
            None \<Rightarrow> writable_buffer (obj a) = None \<or> \<not> writable w p
          | Some sv \<Rightarrow>
              (\<exists>e1 w1. save_customPath sv p w = (Some e1, w1)
                 \<and> (e1 = TypeError \<longrightarrow>
                      (\<exists>e2 w2. save_positional sv p w1 = (Some e2, w2)
                         \<and> (writable_buffer (obj a) = None \<or> \<not> writable w2 p)))))"
proof (cases "get_save (obj a)")
  case None
  with assms show ?thesis
    by (auto simp: save_selected_one_def open_wb_write_def split: option.splits if_splits)
next
  case (Some sv)
  with assms have "try_save sv (obj a) p w = (Some e, w')"
    by (simp add: save_selected_one_def)
  from try_save_raised [OF this] Some show ?thesis by simp
qed

lemma extract_one_msg_saved:
  assumes "msg_save_name a = Some fname"
    and "get_save (obj a) = Some sv"
    and "try_save sv (obj a) (os_path_join dest (sanitize_filename fname)) w = (None, w1)"
  shows "extract_one MSG dest a (w, saved, boxes) = (None, w1, saved + 1, boxes)"
  using assms by (simp add: extract_one_def)

lemma extract_one_msg_raw:
  assumes "msg_save_name a = Some fname"
    and "get_save (obj a) = None" and "writable_buffer (obj a) = Some d"
    and "writable w (os_path_join dest (sanitize_filename fname))"
  shows "extract_one MSG dest a (w, saved, boxes)
           = (None, w\<lparr>files := (files w)(os_path_join dest (sanitize_filename fname) := Some d)\<rparr>,
              saved + 1, boxes)"
  using assms by (simp add: extract_one_def open_wb_write_def)

lemma extract_one_msg_not_saved:
  assumes "msg_save_name a = Some fname"
    and "extract_one MSG dest a (w, saved, boxes) = (r, w', saved', boxes')"
    and "saved' \<noteq> saved + 1"
  shows "(case get_save (obj a) of
            None \<Rightarrow> writable_buffer (obj a) = None
                      \<or> \<not> writable w (os_path_join dest (sanitize_filename fname))
          | Some sv \<Rightarrow>
              (\<exists>e1 w1. save_customPath sv (os_path_join dest (sanitize_filename fname)) w
                          = (Some e1, w1)
                 \<and> (e1 = TypeError \<longrightarrow>
                      (\<exists>e2 w2. save_positional sv (os_path_join dest (sanitize_filename fname)) w1
                                  = (Some e2, w2)
                         \<and> (writable_buffer (obj a) = None
                              \<or> \<not> writable w2 (os_path_join dest (sanitize_filename fname)))))))"
proof (cases "get_save (obj a)")
  case None
  with assms show ?thesis
    by (auto simp: extract_one_def open_wb_write_def split: option.splits if_splits)
next
  case (Some sv)
  with assms obtain e w1
    where "try_save sv (obj a) (os_path_join dest (sanitize_filename fname)) w = (Some e, w1)"
    by (auto simp: extract_one_def split: option.splits prod.splits)
  from try_save_raised [OF this] Some show ?thesis by simp
qed

text \<open>
  Claim C3. Saving one msg attachment to the path \<open>p\<close>, as the selected attachment and
  as one item of the batch (where \<open>p\<close> is the destination folder joined with the
  sanitized name). If the handle has a \<open>save\<close> and \<open>save(customPath=p)\<close> returns, that
  call is all that happens and the save succeeds. If that call raises \<open>TypeError\<close> and
  \<open>save(p)\<close>, run next, returns, the save succeeds. If the handle has no \<open>save\<close>, the
  buffer under \<open>data\<close>, or else under \<open>payload\<close>, that is present and not empty is
  written to \<open>p\<close>. And whenever the save fails (an exception for the selected
  attachment, no count for the batch item), none of these has succeeded: without
  \<open>save\<close> there was no such buffer or \<open>p\<close> could not be written; with \<open>save\<close> the first
  call raised, and if it raised \<open>TypeError\<close> the second call raised too and no buffer
  could be written.
\<close>

theorem msg_attachment_save_fallbacks:
  "(get_save (obj a) = Some sv \<and> save_customPath sv p w = (None, w1)
      \<longrightarrow> save_selected_one MSG a p w = (None, w1))
   \<and> (get_save (obj a) = Some sv \<and> save_customPath sv p w = (Some TypeError, w1)
        \<and> save_positional sv p w1 = (None, w2)
      \<longrightarrow> save_selected_one MSG a p w = (None, w2))
   \<and> (obj a = Some h \<and> obj_save h = None \<and> d \<noteq> []
        \<and> (obj_data h = Some d
            \<or> ((obj_data h = None \<or> obj_data h = Some []) \<and> obj_payload h = Some d))
        \<and> writable w p
      \<longrightarrow> save_selected_one MSG a p w = (None, w\<lparr>files := (files w)(p := Some d)\<rparr>))
   \<and> (save_selected_one MSG a p w = (Some e, w')
      \<longrightarrow> (case get_save (obj a) of
             None \<Rightarrow> writable_buffer (obj a) = None \<or> \<not> writable w p
           | Some sv' \<Rightarrow>
               (\<exists>e1 v1. save_customPath sv' p w = (Some e1, v1)
                  \<and> (e1 = TypeError \<longrightarrow>
                       (\<exists>e2 v2. save_positional sv' p v1 = (Some e2, v2)
                          \<and> (writable_buffer (obj a) = None \<or> \<not> writable v2 p))))))
   \<and> (msg_save_name a = Some fname \<and> p = os_path_join dest (sanitize_filename fname)
      \<longrightarrow>
        (get_save (obj a) = Some sv \<and> save_customPath sv p w = (None, w1)
           \<longrightarrow> extract_one MSG dest a (w, saved, boxes) = (None, w1, saved + 1, boxes))
        \<and> (get_save (obj a) = Some sv \<and> save_customPath sv p w = (Some TypeError, w1)
             \<and> save_positional sv p w1 = (None, w2)
           \<longrightarrow> extract_one MSG dest a (w, saved, boxes) = (None, w2, saved + 1, boxes))
        \<and> (obj a = Some h \<and> obj_save h = None \<and> d \<noteq> []
             \<and> (obj_data h = Some d
                 \<or> ((obj_data h = None \<or> obj_data h = Some []) \<and> obj_payload h = Some d))
             \<and> writable w p
           \<longrightarrow> extract_one MSG dest a (w, saved, boxes)
                 = (None, w\<lparr>files := (files w)(p := Some d)\<rparr>, saved + 1, boxes))
        \<and> (extract_one MSG dest a (w, saved, boxes) = (r, w', saved', boxes')
             \<and> saved' \<noteq> saved + 1
           \<longrightarrow> (case get_save (obj a) of
                  None \<Rightarrow> writable_buffer (obj a) = None \<or> \<not> writable w p
                | Some sv' \<Rightarrow>
                    (\<exists>e1 v1. save_customPath sv' p w = (Some e1, v1)
                       \<and> (e1 = TypeError \<longrightarrow>
                            (\<exists>e2 v2. save_positional sv' p v1 = (Some e2, v2)
                               \<and> (writable_buffer (obj a) = None \<or> \<not> writable v2 p)))))))"
proof (intro conjI impI; (elim conjE)?)
  assume "get_save (obj a) = Some sv" "save_customPath sv p w = (None, w1)"
  then show "save_selected_one MSG a p w = (None, w1)"
    by (simp add: save_selected_one_def try_save_first)
next
  assume "get_save (obj a) = Some sv" "save_customPath sv p w = (Some TypeError, w1)"
    "save_positional sv p w1 = (None, w2)"
  then show "save_selected_one MSG a p w = (None, w2)"
    by (simp add: save_selected_one_def try_save_retry)
next
  assume h: "obj a = Some h" "obj_save h = None" "d \<noteq> []"
    "obj_data h = Some d
       \<or> ((obj_data h = None \<or> obj_data h = Some []) \<and> obj_payload h = Some d)"
    and w: "writable w p"
  from h have "get_save (obj a) = None" by (simp add: get_save_def)
  moreover from h have "writable_buffer (obj a) = Some d"
    by (simp add: writable_buffer_fields)
  ultimately show "save_selected_one MSG a p w = (None, w\<lparr>files := (files w)(p := Some d)\<rparr>)"
    using w by (rule save_selected_raw)
next
  assume "save_selected_one MSG a p w = (Some e, w')"
  then show "(case get_save (obj a) of
             None \<Rightarrow> writable_buffer (obj a) = None \<or> \<not> writable w p
           | Some sv' \<Rightarrow>
               (\<exists>e1 v1. save_customPath sv' p w = (Some e1, v1)
                  \<and> (e1 = TypeError \<longrightarrow>
                       (\<exists>e2 v2. save_positional sv' p v1 = (Some e2, v2)
                          \<and> (writable_buffer (obj a) = None \<or> \<not> writable v2 p)))))"
    by (rule save_selected_raised)
next
  assume "msg_save_name a = Some fname" "p = os_path_join dest (sanitize_filename fname)"
    "get_save (obj a) = Some sv" "save_customPath sv p w = (None, w1)"
  then show "extract_one MSG dest a (w, saved, boxes) = (None, w1, saved + 1, boxes)"
    by (simp add: extract_one_msg_saved try_save_first)
next
  assume "msg_save_name a = Some fname" "p = os_path_join dest (sanitize_filename fname)"
    "get_save (obj a) = Some sv" "save_customPath sv p w = (Some TypeError, w1)"
    "save_positional sv p w1 = (None, w2)"
  then show "extract_one MSG dest a (w, saved, boxes) = (None, w2, saved + 1, boxes)"
    by (simp add: extract_one_msg_saved try_save_retry)
next
  assume n: "msg_save_name a = Some fname" "p = os_path_join dest (sanitize_filename fname)"
    and h: "obj a = Some h" "obj_save h = None" "d \<noteq> []"
    "obj_data h = Some d
       \<or> ((obj_data h = None \<or> obj_data h = Some []) \<and> obj_payload h = Some d)"
    and w: "writable w p"
  from h have "get_save (obj a) = None" by (simp add: get_save_def)
  moreover from h have "writable_buffer (obj a) = Some d"
    by (simp add: writable_buffer_fields)
  ultimately show "extract_one MSG dest a (w, saved, boxes)
                 = (None, w\<lparr>files := (files w)(p := Some d)\<rparr>, saved + 1, boxes)"
    using n w by (simp add: extract_one_msg_raw)
next
  assume n: "msg_save_name a = Some fname"
    and p: "p = os_path_join dest (sanitize_filename fname)"
    and one: "extract_one MSG dest a (w, saved, boxes) = (r, w', saved', boxes')"
    and ns: "saved' \<noteq> saved + 1"
  show "(case get_save (obj a) of
                  None \<Rightarrow> writable_buffer (obj a) = None \<or> \<not> writable w p
                | Some sv' \<Rightarrow>
                    (\<exists>e1 v1. save_customPath sv' p w = (Some e1, v1)
                       \<and> (e1 = TypeError \<longrightarrow>
                            (\<exists>e2 v2. save_positional sv' p v1 = (Some e2, v2)
                               \<and> (writable_buffer (obj a) = None \<or> \<not> writable v2 p)))))"
    unfolding p by (rule extract_one_msg_not_saved [OF n one ns])
qed

theorem msg_attachment_save_fallbacks_witness:
  "save_selected_one MSG
       (msg_attachment (Some \<lparr>save_customPath = writes_marker ''K'',
                              save_positional = raises OtherError\<rparr>) (Some ''raw'') None)
       (str ''x'') example_world
     = (None, example_world\<lparr>files := (files example_world)(str ''x'' := Some ''K'')\<rparr>)
   \<and> save_selected_one MSG
       (msg_attachment (Some \<lparr>save_customPath = raises TypeError,
                              save_positional = writes_marker ''P''\<rparr>) (Some ''raw'') None)
       (str ''x'') example_world
     = (None, example_world\<lparr>files := (files example_world)(str ''x'' := Some ''P'')\<rparr>)
   \<and> save_selected_one MSG (msg_attachment None (Some []) (Some ''raw'')) (str ''x'') example_world
     = (None, example_world\<lparr>files := (files example_world)(str ''x'' := Some ''raw'')\<rparr>)
   \<and> save_selected_one MSG (msg_attachment None None (Some [])) (str ''x'') example_world
     = (Some (RuntimeError ''Attachment object not writable''), example_world)
   \<and> writable_buffer (obj (msg_attachment None None (Some []))) = None"
proof -
  let ?kw = "\<lparr>save_customPath = writes_marker ''K'', save_positional = raises OtherError\<rparr>"
  let ?pos = "\<lparr>save_customPath = raises TypeError, save_positional = writes_marker ''P''\<rparr>"
  have wr: "writable example_world (str ''x'')"
    by (simp add: example_world_def str_def)
  have a: "save_selected_one MSG (msg_attachment (Some ?kw) (Some ''raw'') None) (str ''x'')
             example_world
           = (None, example_world\<lparr>files := (files example_world)(str ''x'' := Some ''K'')\<rparr>)"
    using msg_attachment_save_fallbacks
        [where a = "msg_attachment (Some ?kw) (Some ''raw'') None" and sv = ?kw
           and p = "str ''x''" and w = example_world
           and ?w1.0 = "example_world\<lparr>files := (files example_world)(str ''x'' := Some ''K'')\<rparr>"]
    by (simp add: msg_attachment_def get_save_def writes_marker_def)
  have b: "save_selected_one MSG (msg_attachment (Some ?pos) (Some ''raw'') None) (str ''x'')
             example_world
           = (None, example_world\<lparr>files := (files example_world)(str ''x'' := Some ''P'')\<rparr>)"
    using msg_attachment_save_fallbacks
        [where a = "msg_attachment (Some ?pos) (Some ''raw'') None" and sv = ?pos
           and p = "str ''x''" and w = example_world and ?w1.0 = example_world
           and ?w2.0 = "example_world\<lparr>files := (files example_world)(str ''x'' := Some ''P'')\<rparr>"]
    by (simp add: msg_attachment_def get_save_def writes_marker_def raises_def)
  have c: "save_selected_one MSG (msg_attachment None (Some []) (Some ''raw'')) (str ''x'')
             example_world
           = (None, example_world\<lparr>files := (files example_world)(str ''x'' := Some ''raw'')\<rparr>)"
    using msg_attachment_save_fallbacks
        [where a = "msg_attachment None (Some []) (Some ''raw'')"
           and h = "\<lparr>obj_save = None, obj_data = Some [], obj_payload = Some ''raw'',
                    obj_longFilename = Some (str ''doc.bin''), obj_filename = Missing\<rparr>"
           and d = "''raw''" and p = "str ''x''" and w = example_world] wr
    by (simp add: msg_attachment_def)
  have d: "save_selected_one MSG (msg_attachment None None (Some [])) (str ''x'') example_world
           = (Some (RuntimeError ''Attachment object not writable''), example_world)"
    by (simp add: save_selected_one_def msg_attachment_def get_save_def writable_buffer_def
        raw_buffer_def)
  have e: "writable_buffer (obj (msg_attachment None None (Some []))) = None"
    using msg_attachment_save_fallbacks
        [where a = "msg_attachment None None (Some [])" and p = "str ''x''" and w = example_world
           and e = "RuntimeError ''Attachment object not writable''" and w' = example_world] d wr
    by (simp add: msg_attachment_def get_save_def)
  from a b c d e show ?thesis by simp
qed

end
